theory Spec2Isabelle
  imports Complex_Main "HOL-Library.AList"
begin

section \<open>Python values and errors\<close>

text \<open>
  The exceptions the modelled functions can raise. \<open>ValueError\<close> and \<open>TypeError\<close>
  carry the message of the \<^verbatim>\<open>raise\<close> statement; the others are raised by the
  interpreter itself (attribute access on \<^verbatim>\<open>None\<close>, division by zero, indexing an
  empty list).
\<close>

datatype py_error =
    ValueError string
  | TypeError string
  | AttributeError
  | ZeroDivisionError
  | IndexError

text \<open>
  The dynamically typed values that reach \<^verbatim>\<open>isinstance\<close> checks or are returned
  with different Python types on different paths. Python floats are modelled as reals:
  the properties below are about control flow and exact algebraic cancellation, not
  about rounding.
\<close>

datatype py_value =
    PyNone
  | PyBool bool
  | PyInt int
  | PyFloat real
  | PyStr string

text \<open>Sequencing of fallible steps: the first exception ends the function.\<close>

fun bind_err :: "py_error + 'a \<Rightarrow> ('a \<Rightarrow> py_error + 'b) \<Rightarrow> py_error + 'b" where
  "bind_err (Inl e) f = Inl e"
| "bind_err (Inr x) f = f x"

text \<open>
  \<^verbatim>\<open>xs[i]\<close> on a Python list: a negative index counts from the end, an index out
  of range raises \<^verbatim>\<open>IndexError\<close>.
\<close>

definition py_index :: "'a list \<Rightarrow> int \<Rightarrow> py_error + 'a" where
  "py_index xs i =
     (if 0 \<le> i \<and> i < int (length xs) then Inr (xs ! nat i)
      else if i < 0 \<and> - int (length xs) \<le> i then Inr (xs ! nat (int (length xs) + i))
      else Inl IndexError)"

text \<open>
  \<^verbatim>\<open>round(x, ndigits)\<close> on a float, for \<open>ndigits \<ge> 0\<close>: the nearest multiple of
  \<open>10\<^sup>-\<^sup>n\<close>, a tie going to the even neighbour.
\<close>

definition round_half_even :: "real \<Rightarrow> int" where
  "round_half_even x =
     (let f = \<lfloor>x\<rfloor>; d = x - of_int f
      in if d < 1 / 2 then f
         else if 1 / 2 < d then f + 1
         else if even f then f else f + 1)"

definition py_round :: "real \<Rightarrow> nat \<Rightarrow> real" where
  "py_round x ndigits = of_int (round_half_even (x * 10 ^ ndigits)) / 10 ^ ndigits"

section \<open>Track samples (module sporting)\<close>

text \<open>
  A \<^verbatim>\<open>gpx.TrackPoint\<close> with its three getters, and a track as the list that
  \<^verbatim>\<open>track.get_track_points()\<close> returns.
\<close>

record track_point =
  position_degrees :: "real \<times> real"
  relative_time :: real
  cadence :: real

type_synonym track = "track_point list"

definition map_ranges :: "real \<Rightarrow> real \<Rightarrow> real \<Rightarrow> real \<Rightarrow> real \<Rightarrow> py_error + real" where
  "map_ranges val in_min in_max out_min out_max =
     (if in_max - in_min = 0 then Inl ZeroDivisionError
      else Inr ((val - in_min) * (out_max - out_min) / (in_max - in_min) + out_min))"

text \<open>
  The body of the \<^verbatim>\<open>for point_id, point in enumerate(track_points)\<close> loop of
  \<^verbatim>\<open>get_surrounding_points_at_time\<close>. The first point whose time exceeds the
  query ends the loop with \<^verbatim>\<open>track_points[point_id - 1], track_points[point_id]\<close>;
  a loop that runs to the end returns \<^verbatim>\<open>None, None\<close>.
\<close>

fun surrounding_loop ::
  "track \<Rightarrow> (nat \<times> track_point) list \<Rightarrow> real
     \<Rightarrow> py_error + (track_point option \<times> track_point option)" where
  "surrounding_loop track_points [] time = Inr (None, None)"
| "surrounding_loop track_points ((point_id, point) # rest) time =
     (if time < relative_time point then
        bind_err (py_index track_points (int point_id - 1)) (\<lambda>below.
        bind_err (py_index track_points (int point_id)) (\<lambda>above.
          Inr (Some below, Some above)))
      else surrounding_loop track_points rest time)"

definition get_surrounding_points_at_time ::
  "track \<Rightarrow> real \<Rightarrow> py_error + (track_point option \<times> track_point option)" where
  "get_surrounding_points_at_time track_points time =
     surrounding_loop track_points (enumerate 0 track_points) time"

text \<open>A method call on a value that may be \<^verbatim>\<open>None\<close>.\<close>

definition deref :: "'a option \<Rightarrow> py_error + 'a" where
  "deref p = (case p of None \<Rightarrow> Inl AttributeError | Some x \<Rightarrow> Inr x)"

definition get_position_at_time :: "track \<Rightarrow> real \<Rightarrow> py_error + (real \<times> real)" where
  "get_position_at_time track_points time =
     bind_err (py_index track_points (- 1)) (\<lambda>last_point.
       if relative_time last_point \<le> time then Inr (position_degrees last_point)
       else
         bind_err (get_surrounding_points_at_time track_points time) (\<lambda>(point_below, point_above).
         bind_err (deref point_below) (\<lambda>below.
         bind_err (deref point_above) (\<lambda>above.
           let time_below = relative_time below;
               time_above = relative_time above;
               position_above = position_degrees above;
               position_below = position_degrees below
           in
             bind_err (map_ranges time time_below time_above
                         (fst position_below) (fst position_above)) (\<lambda>new_lat.
             bind_err (map_ranges time time_below time_above
                         (snd position_below) (snd position_above)) (\<lambda>new_lon.
               Inr (new_lat, new_lon)))))))"

text \<open>
  \<^verbatim>\<open>geo.geo_distance\<close> lives in the module \<^verbatim>\<open>components\<close>; it is a parameter
  here. The finished branch returns the Python integer \<^verbatim>\<open>0\<close>, the other branch a
  float.
\<close>

definition get_speed_at_time ::
  "(real \<Rightarrow> real \<Rightarrow> real \<Rightarrow> real \<Rightarrow> real) \<Rightarrow> track \<Rightarrow> real \<Rightarrow> py_error + py_value" where
  "get_speed_at_time geo_distance track_points time =
     bind_err (py_index track_points (- 1)) (\<lambda>last_point.
       if relative_time last_point < time then Inr (PyInt 0)
       else
         bind_err (get_surrounding_points_at_time track_points time) (\<lambda>(point_below, point_above).
         bind_err (deref point_below) (\<lambda>below.
         bind_err (deref point_above) (\<lambda>above.
           let position_below = position_degrees below;
               position_above = position_degrees above;
               time_below = relative_time below;
               time_above = relative_time above;
               time_delta = time_above - time_below;
               distance = geo_distance (fst position_below) (snd position_below)
                                       (fst position_above) (snd position_above)
           in if time_delta = 0 then Inl ZeroDivisionError
              else Inr (PyFloat (distance / time_delta))))))"

definition get_cadence_at_time :: "track \<Rightarrow> real \<Rightarrow> py_error + py_value" where
  "get_cadence_at_time track_points time =
     bind_err (py_index track_points (- 1)) (\<lambda>last_point.
       if relative_time last_point < time then Inr (PyInt 0)
       else
         bind_err (get_surrounding_points_at_time track_points time) (\<lambda>(point_below, point_above).
         bind_err (deref point_below) (\<lambda>below.
         bind_err (deref point_above) (\<lambda>above.
           let cadence_below = cadence below;
               cadence_above = cadence above;
               time_below = relative_time below;
               time_above = relative_time above
           in bind_err (map_ranges time time_below time_above cadence_below cadence_above)
                (\<lambda>m. Inr (PyFloat (py_round m 1)))))))"

text \<open>
  \<^verbatim>\<open>convert_speed_units\<close>. How Python prints a float and an integer inside an
  f-string is left to the two parameters \<open>fmt_float\<close> and \<open>fmt_int\<close>. Float true
  division raises on a zero divisor; \<^verbatim>\<open>total // 60\<close> and \<^verbatim>\<open>total % 60\<close> are floor
  division and its remainder.
\<close>

definition py_div :: "real \<Rightarrow> real \<Rightarrow> py_error + real" where
  "py_div a b = (if b = 0 then Inl ZeroDivisionError else Inr (a / b))"

definition convert_speed_units ::
  "(real \<Rightarrow> string) \<Rightarrow> (int \<Rightarrow> string) \<Rightarrow> py_value \<Rightarrow> py_value \<Rightarrow> py_error + string" where
  "convert_speed_units fmt_float fmt_int speed unit =
     (case speed of
        PyFloat sp \<Rightarrow>
          (case unit of
             PyStr u \<Rightarrow>
               if u = ''m/s'' then Inr (fmt_float sp @ '' m/s'')
               else if u = ''km/h'' then Inr (fmt_float (sp * 3.6) @ '' km/h'')
               else if u = ''mph'' then Inr (fmt_float (sp * 2.237) @ '' mph'')
               else if u = ''s/500m'' then
                 bind_err (py_div 500 sp) (\<lambda>q.
                   let total = py_round q 1;
                       mins = \<lfloor>total / 60\<rfloor>;
                       secs = total - 60 * of_int \<lfloor>total / 60\<rfloor>
                   in Inr (fmt_int mins @ '':'' @ fmt_float secs @ '' /500m''))
               else Inl (ValueError ''Unit must be one of: m/s, km/h, mph, s/500m'')
           | _ \<Rightarrow> Inl (TypeError ''Unit must be a string''))
      | _ \<Rightarrow> Inl (TypeError ''Speed must be a float''))"

section \<open>Tile space (class MapClass of module graph_handler)\<close>

text \<open>
  The fields of \<^verbatim>\<open>MapClass\<close> that the tile and coordinate methods read and write.
  A Python dictionary is an association list in insertion order; its keys are pairwise
  distinct. \<^verbatim>\<open>d[k] = v\<close> is \<^const>\<open>AList.update\<close>: it overwrites in place or appends.
  The image type is a parameter. The athlete table plays no part in these methods and
  is left out.
\<close>

type_synonym 'img tile_dict = "((int \<times> int) \<times> 'img) list"

record 'img map_class =
  tile_size :: int
  image_dict :: "'img tile_dict"
  raw_image_dict :: "'img tile_dict"
  gpx_bounds_deg :: "(real \<times> real \<times> real \<times> real) option"
  tile_bounds_plt :: "(int \<times> int \<times> int \<times> int) option"
  tile_bounds_deg :: "(real \<times> real \<times> real \<times> real) option"

definition map_class_init :: "'img map_class" where
  "map_class_init =
     \<lparr>tile_size = 50, image_dict = [], raw_image_dict = [],
      gpx_bounds_deg = None, tile_bounds_plt = None, tile_bounds_deg = None\<rparr>"

definition num2deg :: "int \<Rightarrow> int \<Rightarrow> int \<Rightarrow> real \<times> real" where
  "num2deg xtile ytile zoom =
     (let exp_zoom = 2 powr of_int zoom;
          lon_deg = of_int xtile / exp_zoom * 360 - 180;
          lat_rad = arctan (sinh (pi * (1 - 2 * of_int ytile / exp_zoom)));
          lat_deg = lat_rad * 180 / pi
      in (lat_deg, lon_deg))"

text \<open>
  The tuple \<^verbatim>\<open>tile_ind_bounds\<close> (north, east, south, west) that both
  \<^verbatim>\<open>__set_tile_bounds\<close> and \<^verbatim>\<open>__reindex_tiles\<close> compute from the keys. Both
  compute it only after the emptiness check has passed.
\<close>

definition tile_ind_bounds :: "(int \<times> int) list \<Rightarrow> int \<times> int \<times> int \<times> int" where
  "tile_ind_bounds tile_indexes =
     (Min (set (map snd tile_indexes)),
      Max (set (map fst tile_indexes)),
      Max (set (map snd tile_indexes)),
      Min (set (map fst tile_indexes)))"

definition set_tile_bounds :: "'img map_class \<Rightarrow> py_error + 'img map_class" where
  "set_tile_bounds s =
     (if raw_image_dict s = [] then Inl (ValueError ''Image dictionary not set'')
      else
        (case tile_ind_bounds (map fst (raw_image_dict s)) of (north, east, south, west) \<Rightarrow>
           let bottom_left = num2deg west (south + 1) 17;
               top_right = num2deg (east + 1) north 17
           in Inr (s\<lparr>tile_bounds_plt :=
                        Some ((south - north + 1) * tile_size s,
                              (east - west + 1) * tile_size s, 0, 0),
                      tile_bounds_deg :=
                        Some (fst top_right, snd top_right,
                              fst bottom_left, snd bottom_left)\<rparr>)))"

text \<open>The loop of \<^verbatim>\<open>__reindex_tiles\<close> that fills \<^verbatim>\<open>new_dict\<close>.\<close>

fun reindex_loop :: "int \<Rightarrow> int \<Rightarrow> 'img tile_dict \<Rightarrow> 'img tile_dict \<Rightarrow> 'img tile_dict" where
  "reindex_loop west south [] new_dict = new_dict"
| "reindex_loop west south ((old_key, img) # rest) new_dict =
     reindex_loop west south rest
       (AList.update (fst old_key - west, south - snd old_key) img new_dict)"

definition reindex_tiles :: "'img map_class \<Rightarrow> py_error + 'img map_class" where
  "reindex_tiles s =
     bind_err (set_tile_bounds s) (\<lambda>s1.
       case tile_ind_bounds (map fst (raw_image_dict s1)) of (north, east, south, west) \<Rightarrow>
         Inr (s1\<lparr>image_dict := reindex_loop west south (raw_image_dict s1) []\<rparr>))"

text \<open>
  The loop of \<^verbatim>\<open>__add_images\<close> over \<^verbatim>\<open>_image_dict.items()\<close>, then the method
  itself. The method raises only from the reindexing, that is only when the merged
  dictionary is empty, so the state dropped with the exception equals the one before
  the call.
\<close>

fun add_images_loop :: "'img tile_dict \<Rightarrow> 'img tile_dict \<Rightarrow> 'img tile_dict" where
  "add_images_loop raw [] = raw"
| "add_images_loop raw ((key, img) # rest) =
     add_images_loop (if key \<notin> set (map fst raw) then AList.update key img raw else raw) rest"

definition add_images :: "'img map_class \<Rightarrow> 'img tile_dict \<Rightarrow> py_error + 'img map_class" where
  "add_images s new_images =
     reindex_tiles (s\<lparr>raw_image_dict := add_images_loop (raw_image_dict s) new_images\<rparr>)"

text \<open>
  \<^verbatim>\<open>degrees_to_graph\<close>. After the two explicit checks, each coordinate divides
  first and reads \<^verbatim>\<open>tile_bounds_plt\<close> second; subscripting \<^verbatim>\<open>None\<close> is a
  \<^verbatim>\<open>TypeError\<close>.
\<close>

definition subscript_none :: "'a option \<Rightarrow> py_error + 'a" where
  "subscript_none v =
     (case v of None \<Rightarrow> Inl (TypeError ''NoneType object is not subscriptable'')
      | Some x \<Rightarrow> Inr x)"

definition degrees_to_graph :: "'img map_class \<Rightarrow> real \<times> real \<Rightarrow> py_error + (real \<times> real)" where
  "degrees_to_graph s degrees =
     (case gpx_bounds_deg s of
        None \<Rightarrow> Inl (ValueError ''GPX bounds not set'')
      | Some gpx \<Rightarrow>
          (case tile_bounds_deg s of
             None \<Rightarrow> Inl (ValueError ''Tile bounds not set'')
           | Some (tn, te, ts, tw) \<Rightarrow>
               bind_err (py_div (fst degrees - ts) (tn - ts)) (\<lambda>qy.
               bind_err (subscript_none (tile_bounds_plt s)) (\<lambda>(plt_h, plt_w, z1, z2).
               let y_coord = qy * of_int plt_h in
               bind_err (py_div (snd degrees - tw) (te - tw)) (\<lambda>qx.
               let x_coord = qx * of_int plt_w in
                 Inr (x_coord, y_coord))))))"

text \<open>
  \<^verbatim>\<open>scale_zoom\<close>. \<^verbatim>\<open>max(self.tile_bounds_plt)\<close> raises a \<^verbatim>\<open>TypeError\<close> while
  the bounds are still \<^verbatim>\<open>None\<close>.
\<close>

definition scale_zoom :: "'img map_class \<Rightarrow> real \<Rightarrow> py_error + real" where
  "scale_zoom s input_value =
     (let smallest_zoom_level = 5;
          exp_value = 6 powr (- 2.3 + 3.7 * input_value);
          exp_value_at_0 = 6 powr (- 2.3 + 3.7 * 0)
      in case tile_bounds_plt s of
           None \<Rightarrow> Inl (TypeError ''NoneType object is not iterable'')
         | Some (a, b, c, d) \<Rightarrow>
             let max_map_size = of_int (Max {a, b, c, d}) - smallest_zoom_level + exp_value_at_0
             in Inr ((exp_value - exp_value_at_0) * max_map_size + smallest_zoom_level))"

section \<open>Auxiliary notions and sample data\<close>

text \<open>
  The index at which the bracket search stops: the number of leading points whose time
  does not exceed the query.
\<close>

definition first_above :: "track \<Rightarrow> real \<Rightarrow> nat" where
  "first_above ps t = length (takeWhile (\<lambda>p. \<not> t < relative_time p) ps)"

text \<open>
  The two-sample track of the specification's scenario, a track whose two samples carry
  the same time stamp, and the two-tile set of the reindexing scenario (the images are
  numbered).
\<close>

definition example_track :: track where
  "example_track =
     [\<lparr>position_degrees = (0, 0), relative_time = 0, cadence = 30\<rparr>,
      \<lparr>position_degrees = (0, 0.001), relative_time = 10, cadence = 40\<rparr>]"

definition tied_track :: track where
  "tied_track =
     [\<lparr>position_degrees = (0, 0), relative_time = 5, cadence = 30\<rparr>,
      \<lparr>position_degrees = (1, 1), relative_time = 5, cadence = 40\<rparr>]"

definition example_tiles :: "nat tile_dict" where
  "example_tiles = [((2, 3), 1), ((4, 5), 2)]"

text \<open>A freshly constructed \<^verbatim>\<open>MapClass\<close> holding those two tiles as raw tiles.\<close>

definition example_state :: "nat map_class" where
  "example_state = map_class_init\<lparr>raw_image_dict := example_tiles\<rparr>"

text \<open>A stand-in for \<^verbatim>\<open>geo.geo_distance\<close> where a closed term needs one.\<close>

definition flat_distance :: "real \<Rightarrow> real \<Rightarrow> real \<Rightarrow> real \<Rightarrow> real" where
  "flat_distance lat1 lon1 lat2 lon2 = \<bar>lat1 - lat2\<bar> + \<bar>lon1 - lon2\<bar>"

section \<open>Indexing and the bracket search\<close>

lemma bind_err_Inr_iff:
  "bind_err m f = Inr y \<longleftrightarrow> (\<exists>x. m = Inr x \<and> f x = Inr y)"
  by (cases m) simp_all

lemma py_index_last: "xs \<noteq> [] \<Longrightarrow> py_index xs (- 1) = Inr (last xs)"
  by (cases xs rule: rev_cases) (simp_all add: py_index_def nat_add_distrib)

lemma py_index_nth: "i < length xs \<Longrightarrow> py_index xs (int i) = Inr (xs ! i)"
  by (simp add: py_index_def)

lemma py_index_pred: "0 < i \<Longrightarrow> i < length xs \<Longrightarrow> py_index xs (int i - 1) = Inr (xs ! (i - 1))"
  using py_index_nth [of "i - 1" xs] by (simp add: of_nat_diff)

lemma surrounding_loop_enumerate:
  "surrounding_loop tps (enumerate n ps) t =
     (if first_above ps t = length ps then Inr (None, None)
      else bind_err (py_index tps (int (n + first_above ps t) - 1)) (\<lambda>below.
           bind_err (py_index tps (int (n + first_above ps t))) (\<lambda>above.
             Inr (Some below, Some above))))"
  by (induction ps arbitrary: n) (simp_all add: first_above_def ac_simps)

lemma first_above_all:
  "first_above ps t = length ps \<longleftrightarrow> (\<forall>p \<in> set ps. relative_time p \<le> t)"
  by (induction ps) (auto simp add: first_above_def not_less)

lemma first_above_le: "first_above ps t \<le> length ps"
  by (simp add: first_above_def length_takeWhile_le)

lemma first_above_exceeds:
  "first_above ps t < length ps \<Longrightarrow> t < relative_time (ps ! first_above ps t)"
  unfolding first_above_def
  using nth_length_takeWhile [of "\<lambda>p. \<not> t < relative_time p" ps] by simp

lemma first_above_before:
  "j < first_above ps t \<Longrightarrow> relative_time (ps ! j) \<le> t"
  unfolding first_above_def
  using takeWhile_nth [of j "\<lambda>p. \<not> t < relative_time p" ps]
    nth_mem [of j "takeWhile (\<lambda>p. \<not> t < relative_time p) ps"]
    set_takeWhileD [of "ps ! j" "\<lambda>p. \<not> t < relative_time p" ps]
  by (simp add: not_less)

lemma surrounding_none:
  assumes "\<forall>p \<in> set ps. relative_time p \<le> t"
  shows "get_surrounding_points_at_time ps t = Inr (None, None)"
  using assms
  by (simp add: get_surrounding_points_at_time_def surrounding_loop_enumerate first_above_all)

lemma surrounding_some:
  assumes "first_above ps t < length ps" and "0 < first_above ps t"
  shows "get_surrounding_points_at_time ps t =
           Inr (Some (ps ! (first_above ps t - 1)), Some (ps ! first_above ps t))"
  using assms
  by (simp add: get_surrounding_points_at_time_def surrounding_loop_enumerate
      py_index_nth py_index_pred)

lemma surrounding_wrap:
  assumes "ps \<noteq> []" and "t < relative_time (hd ps)"
  shows "get_surrounding_points_at_time ps t = Inr (Some (last ps), Some (hd ps))"
proof -
  from assms have "first_above ps t = 0"
    by (cases ps) (simp_all add: first_above_def)
  with assms show ?thesis
    by (simp add: get_surrounding_points_at_time_def surrounding_loop_enumerate py_index_last
        py_index_nth [of 0, simplified] hd_conv_nth)
qed

lemma sorted_hd_le_last:
  assumes "sorted xs" and "xs \<noteq> []"
  shows "hd xs \<le> last xs"
  using assms sorted_nth_mono [of xs 0 "length xs - 1"]
  by (simp add: hd_conv_nth last_conv_nth)


lemma bracket_inside:
  assumes "ps \<noteq> []" and "relative_time (hd ps) \<le> t" and "t < relative_time (last ps)"
  shows "0 < first_above ps t" and "first_above ps t < length ps"
proof -
  from assms(1,2) show "0 < first_above ps t"
    by (cases ps) (simp_all add: first_above_def)
  have "first_above ps t \<noteq> length ps"
  proof
    assume "first_above ps t = length ps"
    then have "relative_time (last ps) \<le> t"
      using assms(1) by (simp add: first_above_all)
    with assms(3) show False by simp
  qed
  with first_above_le [of ps t] show "first_above ps t < length ps" by simp
qed

lemma bracket_inside_times:
  assumes "ps \<noteq> []" and "relative_time (hd ps) \<le> t" and "t < relative_time (last ps)"
  shows "\<exists>below above. get_surrounding_points_at_time ps t = Inr (Some below, Some above)
           \<and> relative_time below \<le> t \<and> t < relative_time above"
proof -
  let ?k = "first_above ps t"
  from bracket_inside [OF assms] have k: "0 < ?k" "?k < length ps" .
  then have "get_surrounding_points_at_time ps t = Inr (Some (ps ! (?k - 1)), Some (ps ! ?k))"
    by (simp add: surrounding_some)
  moreover have "relative_time (ps ! (?k - 1)) \<le> t"
    using k first_above_before [of "?k - 1" ps t] by simp
  moreover have "t < relative_time (ps ! ?k)"
    using k by (simp add: first_above_exceeds)
  ultimately show ?thesis by blast
qed

section \<open>Queries at and after the final sample\<close>

text \<open>
  C2. For a non-empty track, \<^verbatim>\<open>get_position_at_time\<close> at the last point's
  \<^verbatim>\<open>relative_time\<close> returns exactly the last point's position, and at every later
  time it returns that same position.
\<close>

theorem position_at_or_after_end:
  assumes "track_points \<noteq> []"
    and "relative_time (last track_points) \<le> time"
  shows "get_position_at_time track_points time = Inr (position_degrees (last track_points))"
  using assms by (simp add: get_position_at_time_def py_index_last)

theorem position_at_or_after_end_witness:
  "example_track \<noteq> [] \<and> relative_time (last example_track) \<le> 10
     \<and> relative_time (last example_track) \<le> 12
     \<and> get_position_at_time example_track 10 = Inr (0, 0.001)
     \<and> get_position_at_time example_track 12 = Inr (0, 0.001)"
  using position_at_or_after_end [of example_track 10]
    position_at_or_after_end [of example_track 12]
  by (simp add: example_track_def)

text \<open>
  Speed and cadence test \<^verbatim>\<open>time > last_point.get_relative_time()\<close>, where the
  position query tests \<^verbatim>\<open>>=\<close>. Strictly after the last sample both return the
  integer zero. At the last sample's own time, on a track none of whose points exceeds
  that time, the bracket search returns \<^verbatim>\<open>None, None\<close> and the first getter called
  on \<^verbatim>\<open>None\<close> raises.
\<close>

lemma finished_after_end:
  assumes "track_points \<noteq> []" and "relative_time (last track_points) < time"
  shows "get_speed_at_time geo_distance track_points time = Inr (PyInt 0)"
    and "get_cadence_at_time track_points time = Inr (PyInt 0)"
  using assms by (simp_all add: get_speed_at_time_def get_cadence_at_time_def py_index_last)

lemma finished_at_end:
  assumes "track_points \<noteq> []" and "\<forall>p \<in> set track_points. relative_time p \<le> time"
    and "time = relative_time (last track_points)"
  shows "get_speed_at_time geo_distance track_points time = Inl AttributeError"
    and "get_cadence_at_time track_points time = Inl AttributeError"
  using assms surrounding_none [of track_points time]
  by (simp_all add: get_speed_at_time_def get_cadence_at_time_def py_index_last deref_def)

text \<open>
  C1. On the two-sample track with times 0 and 10, no point's time exceeds the query
  time 10, yet neither \<^verbatim>\<open>get_speed_at_time\<close> nor \<^verbatim>\<open>get_cadence_at_time\<close>
  returns zero there: both raise \<^verbatim>\<open>AttributeError\<close>.
\<close>

theorem speed_and_cadence_at_final_sample_time:
  "get_speed_at_time geo_distance example_track 10 = Inl AttributeError
     \<and> get_cadence_at_time example_track 10 = Inl AttributeError"
  by (simp add: get_speed_at_time_def get_cadence_at_time_def
      get_surrounding_points_at_time_def py_index_def deref_def example_track_def)

section \<open>Speed inside a bracket\<close>

text \<open>
  Below the final sample's time the speed depends on the query time only through the
  pair that the bracket search returns, on any track, whether a value is returned or an
  exception raised.
\<close>

lemma speed_depends_on_bracket:
  assumes "get_surrounding_points_at_time track_points t1 =
           get_surrounding_points_at_time track_points t2"
    and "t1 < relative_time (last track_points)"
    and "t2 < relative_time (last track_points)"
  shows "get_speed_at_time geo_distance track_points t1 =
         get_speed_at_time geo_distance track_points t2"
proof (cases "track_points = []")
  case True
  then show ?thesis by (simp add: get_speed_at_time_def py_index_def)
next
  case False
  with assms show ?thesis
    by (simp add: get_speed_at_time_def py_index_last)
qed




section \<open>Queries before the first sample\<close>

text \<open>
  Before the first sample the search stops at index 0, and \<^verbatim>\<open>track_points[-1]\<close> is
  the last point. The interpolation then divides by the difference of the first and the
  last time.
\<close>

lemma position_before_first:
  assumes "track_points \<noteq> []"
    and "time < relative_time (hd track_points)"
    and "time < relative_time (last track_points)"
  shows "get_position_at_time track_points time =
     (let below = last track_points; above = hd track_points
      in if relative_time above = relative_time below then Inl ZeroDivisionError
         else Inr ((time - relative_time below)
                     * (fst (position_degrees above) - fst (position_degrees below))
                     / (relative_time above - relative_time below)
                   + fst (position_degrees below),
                   (time - relative_time below)
                     * (snd (position_degrees above) - snd (position_degrees below))
                     / (relative_time above - relative_time below)
                   + snd (position_degrees below)))"
  using assms
  by (simp add: get_position_at_time_def py_index_last surrounding_wrap deref_def
      map_ranges_def Let_def)

text \<open>
  C8, amended. For a time-sorted track with at least two points whose first and last
  samples differ in time, and a query time strictly before the first sample's time, the
  bracket search returns the last point as \<open>below\<close> and the first as \<open>above\<close>, and
  \<^verbatim>\<open>get_position_at_time\<close> returns the linear interpolation between the final and
  the first sample, without clamping and without raising.
\<close>

theorem position_before_first_sample:
  assumes "2 \<le> length track_points"
    and "sorted (map relative_time track_points)"
    and "time < relative_time (hd track_points)"
    and "relative_time (hd track_points) \<noteq> relative_time (last track_points)"
  shows "get_surrounding_points_at_time track_points time =
           Inr (Some (last track_points), Some (hd track_points))
     \<and> get_position_at_time track_points time =
         (let below = last track_points; above = hd track_points
          in Inr ((time - relative_time below)
                     * (fst (position_degrees above) - fst (position_degrees below))
                     / (relative_time above - relative_time below)
                   + fst (position_degrees below),
                   (time - relative_time below)
                     * (snd (position_degrees above) - snd (position_degrees below))
                     / (relative_time above - relative_time below)
                   + snd (position_degrees below)))"
proof -
  from assms(1) have ne: "track_points \<noteq> []" by auto
  have "hd (map relative_time track_points) \<le> last (map relative_time track_points)"
    using assms(2) ne by (intro sorted_hd_le_last) simp_all
  with ne have "relative_time (hd track_points) \<le> relative_time (last track_points)"
    by (simp add: hd_map last_map)
  with assms(3) have lt: "time < relative_time (last track_points)" by simp
  show ?thesis
    using surrounding_wrap [OF ne assms(3)] position_before_first [OF ne assms(3) lt] assms(4)
    by (simp add: Let_def)
qed

theorem position_before_first_sample_witness:
  "2 \<le> length example_track \<and> sorted (map relative_time example_track)
   \<and> - 5 < relative_time (hd example_track)
   \<and> relative_time (hd example_track) \<noteq> relative_time (last example_track)
   \<and> get_surrounding_points_at_time example_track (- 5) =
        Inr (Some (last example_track), Some (hd example_track))
   \<and> get_position_at_time example_track (- 5) = Inr (0, - 0.0005)"
  using position_before_first_sample [of example_track "- 5"]
  by (simp add: example_track_def)

text \<open>
  As stated for every track with two points, C8 fails: with two samples at the same
  time 5 and the query time 3, the search does wrap around to the last point, but the
  interpolation divides by zero and the query raises.
\<close>

theorem position_before_first_sample_tied:
  "2 \<le> length tied_track \<and> sorted (map relative_time tied_track)
   \<and> 3 < relative_time (hd tied_track)
   \<and> get_surrounding_points_at_time tied_track 3 =
        Inr (Some (last tied_track), Some (hd tied_track))
   \<and> get_position_at_time tied_track 3 = Inl ZeroDivisionError"
  by (simp add: get_position_at_time_def get_surrounding_points_at_time_def tied_track_def
      py_index_def deref_def map_ranges_def)

section \<open>Divisions between the first and the last sample\<close>

text \<open>
  C10. On a non-empty track with strictly increasing times, for a query time from the
  first sample's time up to, but excluding, the last sample's time, the bracket search
  returns two points with a non-zero time difference, which is the divisor of every
  division in \<^verbatim>\<open>get_position_at_time\<close>, \<^verbatim>\<open>get_speed_at_time\<close> and
  \<^verbatim>\<open>get_cadence_at_time\<close>; all three return a value. (The proof uses only that the
  query lies between the first and the last time.)
\<close>

theorem divisions_inside_track:
  assumes "sorted_wrt (<) (map relative_time track_points)"
    and "track_points \<noteq> []"
    and "relative_time (hd track_points) \<le> time"
    and "time < relative_time (last track_points)"
  shows "\<exists>below above.
     get_surrounding_points_at_time track_points time = Inr (Some below, Some above)
     \<and> relative_time above - relative_time below \<noteq> 0
     \<and> get_position_at_time track_points time =
         Inr ((time - relative_time below)
                 * (fst (position_degrees above) - fst (position_degrees below))
                 / (relative_time above - relative_time below)
               + fst (position_degrees below),
              (time - relative_time below)
                 * (snd (position_degrees above) - snd (position_degrees below))
                 / (relative_time above - relative_time below)
               + snd (position_degrees below))
     \<and> get_speed_at_time geo_distance track_points time =
         Inr (PyFloat (geo_distance (fst (position_degrees below)) (snd (position_degrees below))
                                    (fst (position_degrees above)) (snd (position_degrees above))
                       / (relative_time above - relative_time below)))
     \<and> get_cadence_at_time track_points time =
         Inr (PyFloat (py_round ((time - relative_time below) * (cadence above - cadence below)
                                   / (relative_time above - relative_time below)
                                 + cadence below) 1))"
proof -
  from bracket_inside_times [OF assms(2-4)] obtain below above where
    b: "get_surrounding_points_at_time track_points time = Inr (Some below, Some above)"
    and t: "relative_time below \<le> time" "time < relative_time above"
    by blast
  from t have d: "relative_time above - relative_time below \<noteq> 0" by simp
  have l: "py_index track_points (- 1) = Inr (last track_points)"
    using assms(2) by (rule py_index_last)
  have "get_position_at_time track_points time =
         Inr ((time - relative_time below)
                 * (fst (position_degrees above) - fst (position_degrees below))
                 / (relative_time above - relative_time below)
               + fst (position_degrees below),
              (time - relative_time below)
                 * (snd (position_degrees above) - snd (position_degrees below))
                 / (relative_time above - relative_time below)
               + snd (position_degrees below))"
    using assms(4) b d l by (simp add: get_position_at_time_def deref_def map_ranges_def Let_def)
  moreover have "get_speed_at_time geo_distance track_points time =
         Inr (PyFloat (geo_distance (fst (position_degrees below)) (snd (position_degrees below))
                                    (fst (position_degrees above)) (snd (position_degrees above))
                       / (relative_time above - relative_time below)))"
    using assms(4) b d l by (simp add: get_speed_at_time_def deref_def Let_def)
  moreover have "get_cadence_at_time track_points time =
         Inr (PyFloat (py_round ((time - relative_time below) * (cadence above - cadence below)
                                   / (relative_time above - relative_time below)
                                 + cadence below) 1))"
    using assms(4) b d l by (simp add: get_cadence_at_time_def deref_def map_ranges_def Let_def)
  ultimately show ?thesis using b d by blast
qed

theorem divisions_inside_track_witness:
  "sorted_wrt (<) (map relative_time example_track) \<and> example_track \<noteq> []
   \<and> relative_time (hd example_track) \<le> 5 \<and> 5 < relative_time (last example_track)
   \<and> (\<exists>below above.
        get_surrounding_points_at_time example_track 5 = Inr (Some below, Some above)
        \<and> relative_time above - relative_time below \<noteq> 0)
   \<and> get_position_at_time example_track 5 = Inr (0, 0.0005)"
proof -
  have h: "sorted_wrt (<) (map relative_time example_track)" "example_track \<noteq> []"
    "relative_time (hd example_track) \<le> 5" "5 < relative_time (last example_track)"
    by (simp_all add: example_track_def)
  from divisions_inside_track [OF h, of flat_distance] obtain below above where
    r: "get_surrounding_points_at_time example_track 5 = Inr (Some below, Some above)"
      "relative_time above - relative_time below \<noteq> 0"
    by blast
  have "get_position_at_time example_track 5 = Inr (0, 0.0005)"
    by (simp add: get_position_at_time_def get_surrounding_points_at_time_def example_track_def
        py_index_def deref_def map_ranges_def)
  with h r show ?thesis by blast
qed

section \<open>Unit conversion\<close>

text \<open>
  With floats read as reals, the conversion raises in exactly four situations: a speed
  that is not a float, a unit that is not a string, a string outside the four unit
  names, and the pace of a zero speed, where \<^verbatim>\<open>500 / speed\<close> divides by zero.
\<close>

lemma convert_speed_units_error_iff:
  "(\<exists>e. convert_speed_units fmt_float fmt_int speed unit = Inl e) \<longleftrightarrow>
     (\<forall>sp. speed \<noteq> PyFloat sp) \<or> (\<forall>u. unit \<noteq> PyStr u)
     \<or> unit \<notin> {PyStr ''m/s'', PyStr ''km/h'', PyStr ''mph'', PyStr ''s/500m''}
     \<or> (speed = PyFloat 0 \<and> unit = PyStr ''s/500m'')"
  by (cases speed; cases unit) (auto simp add: convert_speed_units_def py_div_def Let_def)

text \<open>
  C3. The float speed \<open>0.0\<close> with the recognised unit \<^verbatim>\<open>s/500m\<close> does not yield a
  formatted string: \<^verbatim>\<open>convert_speed_units\<close> raises \<^verbatim>\<open>ZeroDivisionError\<close>,
  whatever the two printers are.
\<close>

theorem convert_speed_units_zero_pace:
  "convert_speed_units fmt_float fmt_int (PyFloat 0) (PyStr ''s/500m'') = Inl ZeroDivisionError"
  by (simp add: convert_speed_units_def py_div_def)

section \<open>Merging and reindexing tiles\<close>

text \<open>
  The merge loop leaves the dictionary's keys distinct, yields an empty dictionary only
  from two empty ones, and computes the right-biased union of the new and the old map.
  The bounds computation and the reindexing leave the raw dictionary alone and succeed
  exactly when it is non-empty.
\<close>

lemma add_images_loop_map_of:
  "map_of (add_images_loop raw new_images) = map_of new_images ++ map_of raw"
proof (induction new_images arbitrary: raw)
  case Nil
  then show ?case by simp
next
  case (Cons entry rest)
  obtain key img where e: "entry = (key, img)" by (cases entry)
  show ?case
  proof (cases "key \<in> set (map fst raw)")
    case True
    then obtain old where "map_of raw key = Some old"
      by (metis map_of_eq_None_iff not_Some_eq set_map)
    with True e Cons.IH [of raw] show ?thesis
      by (auto simp add: map_add_def fun_eq_iff split: option.splits)
  next
    case False
    then have "map_of raw key = None"
      by (simp add: map_of_eq_None_iff)
    with False e Cons.IH [of "AList.update key img raw"] show ?thesis
      by (auto simp add: map_add_def fun_eq_iff update_conv' split: option.splits)
  qed
qed



lemma add_images_loop_distinct:
  "distinct (map fst raw) \<Longrightarrow> distinct (map fst (add_images_loop raw new_images))"
proof (induction new_images arbitrary: raw)
  case Nil
  then show ?case by simp
next
  case (Cons entry rest)
  obtain key img where e: "entry = (key, img)" by (cases entry)
  show ?case
  proof (cases "key \<in> set (map fst raw)")
    case True
    with e have "add_images_loop raw (entry # rest) = add_images_loop raw rest" by simp
    with Cons.IH [OF Cons.prems] show ?thesis by simp
  next
    case False
    with e have "add_images_loop raw (entry # rest) =
        add_images_loop (AList.update key img raw) rest" by simp
    moreover have "distinct (map fst (AList.update key img raw))"
      using Cons.prems by (rule distinct_update)
    ultimately show ?thesis using Cons.IH by simp
  qed
qed

lemma update_not_Nil: "AList.update key img raw \<noteq> []"
  by (cases raw) (simp_all split: prod.splits)

lemma add_images_loop_empty:
  "add_images_loop raw new_images = [] \<longleftrightarrow> raw = [] \<and> new_images = []"
proof (induction new_images arbitrary: raw)
  case Nil
  then show ?case by simp
next
  case (Cons entry rest)
  obtain key img where e: "entry = (key, img)" by (cases entry)
  show ?case
  proof (cases "key \<in> set (map fst raw)")
    case True
    then have "raw \<noteq> []" by auto
    moreover from True e have "add_images_loop raw (entry # rest) = add_images_loop raw rest"
      by simp
    ultimately show ?thesis using Cons.IH [of raw] by simp
  next
    case False
    with e have "add_images_loop raw (entry # rest) =
        add_images_loop (AList.update key img raw) rest" by simp
    then show ?thesis using Cons.IH [of "AList.update key img raw"] update_not_Nil [of key img raw]
      by simp
  qed
qed

lemma set_tile_bounds_raw:
  "set_tile_bounds s = Inr s1 \<Longrightarrow> raw_image_dict s1 = raw_image_dict s"
  by (auto simp add: set_tile_bounds_def Let_def split: if_splits prod.splits)

lemma set_tile_bounds_ok:
  "raw_image_dict s \<noteq> [] \<Longrightarrow> \<exists>s1. set_tile_bounds s = Inr s1"
  by (auto simp add: set_tile_bounds_def Let_def split: prod.splits)

lemma reindex_tiles_ok:
  assumes "raw_image_dict s \<noteq> []"
  shows "\<exists>s'. reindex_tiles s = Inr s' \<and> raw_image_dict s' = raw_image_dict s
     \<and> image_dict s' =
         reindex_loop (Min (set (map (fst \<circ> fst) (raw_image_dict s))))
                      (Max (set (map (snd \<circ> fst) (raw_image_dict s))))
                      (raw_image_dict s) []"
proof -
  from set_tile_bounds_ok [OF assms] obtain s1 where s1: "set_tile_bounds s = Inr s1" ..
  then have "raw_image_dict s1 = raw_image_dict s" by (rule set_tile_bounds_raw)
  with s1 show ?thesis
    by (simp add: reindex_tiles_def tile_ind_bounds_def)
qed

lemma reindex_tiles_empty:
  "raw_image_dict s = [] \<Longrightarrow> reindex_tiles s = Inl (ValueError ''Image dictionary not set'')"
  by (simp add: reindex_tiles_def set_tile_bounds_def)

lemma reindex_tiles_raw:
  "reindex_tiles s = Inr s' \<Longrightarrow> raw_image_dict s' = raw_image_dict s"
  using reindex_tiles_ok [of s] reindex_tiles_empty [of s]
  by (cases "raw_image_dict s = []") auto

text \<open>
  C5. A call of \<^verbatim>\<open>add_images\<close> on any state succeeds for every key already in
  \<^verbatim>\<open>raw_tiles\<close> and leaves that key's image as it was; whenever the call
  succeeds, the new raw dictionary is the old one extended by the entries of the argument
  whose keys were absent.
\<close>

theorem add_images_first_write_wins:
  "(\<forall>key img. map_of (raw_image_dict s) key = Some img \<longrightarrow>
      (\<exists>s'. add_images s new_images = Inr s' \<and> map_of (raw_image_dict s') key = Some img))
   \<and> (\<forall>s'. add_images s new_images = Inr s' \<longrightarrow>
        map_of (raw_image_dict s') = map_of new_images ++ map_of (raw_image_dict s))"
proof (intro conjI allI impI)
  fix key img
  assume k: "map_of (raw_image_dict s) key = Some img"
  let ?s1 = "s\<lparr>raw_image_dict := add_images_loop (raw_image_dict s) new_images\<rparr>"
  from k have "raw_image_dict s \<noteq> []" by auto
  then have "raw_image_dict ?s1 \<noteq> []" by (simp add: add_images_loop_empty)
  from reindex_tiles_ok [OF this] obtain s' where
    s': "reindex_tiles ?s1 = Inr s'" "raw_image_dict s' = raw_image_dict ?s1" by blast
  have "map_of (raw_image_dict s') key = Some img"
    using s'(2) k by (simp add: add_images_loop_map_of map_add_def)
  with s'(1) show "\<exists>s'. add_images s new_images = Inr s' \<and> map_of (raw_image_dict s') key = Some img"
    by (simp add: add_images_def)
next
  fix s'
  assume "add_images s new_images = Inr s'"
  then have "raw_image_dict s' = add_images_loop (raw_image_dict s) new_images"
    using reindex_tiles_raw [of "s\<lparr>raw_image_dict := add_images_loop (raw_image_dict s) new_images\<rparr>" s']
    by (simp add: add_images_def)
  then show "map_of (raw_image_dict s') = map_of new_images ++ map_of (raw_image_dict s)"
    by (simp add: add_images_loop_map_of)
qed

theorem add_images_first_write_wins_witness:
  "map_of (raw_image_dict example_state) (2, 3) = Some 1
   \<and> (\<exists>s'. add_images example_state [((2, 3), 7), ((3, 3), 8)] = Inr s'
         \<and> map_of (raw_image_dict s') (2, 3) = Some 1
         \<and> map_of (raw_image_dict s') (3, 3) = Some 8
         \<and> map_of (raw_image_dict s') (4, 5) = Some 2)"
proof -
  have k: "map_of (raw_image_dict example_state) (2, 3) = Some 1"
    by (simp add: example_state_def example_tiles_def)
  from add_images_first_write_wins [of example_state "[((2, 3), 7), ((3, 3), 8)]"] k
  obtain s' where s: "add_images example_state [((2, 3), 7), ((3, 3), 8)] = Inr s'"
    and m: "map_of (raw_image_dict s') =
        map_of [((2, 3), 7), ((3, 3), 8)] ++ map_of (raw_image_dict example_state)"
    by blast
  from m have "map_of (raw_image_dict s') (2, 3) = Some 1"
    "map_of (raw_image_dict s') (3, 3) = Some 8" "map_of (raw_image_dict s') (4, 5) = Some 2"
    by (simp_all add: example_state_def example_tiles_def map_add_def)
  with k s show ?thesis by blast
qed

text \<open>
  The reindexing loop writes the image of the raw key \<open>(x, y)\<close> under
  \<open>(x - west, south - y)\<close>. Distinct raw keys get distinct local keys, so no entry is
  overwritten.
\<close>

lemma reindex_loop_map_of:
  assumes "distinct (map fst raw)"
  shows "map_of (reindex_loop west south raw new_dict) (x - west, south - y) =
           (case map_of raw (x, y) of Some img \<Rightarrow> Some img
            | None \<Rightarrow> map_of new_dict (x - west, south - y))"
  using assms
proof (induction raw arbitrary: new_dict)
  case Nil
  then show ?case by simp
next
  case (Cons entry rest)
  obtain kx ky img where e: "entry = ((kx, ky), img)" by (cases entry) auto
  from Cons.prems e have d: "distinct (map fst rest)" and n: "(kx, ky) \<notin> fst ` set rest"
    by simp_all
  from n have none: "map_of rest (kx, ky) = None" by (simp add: map_of_eq_None_iff)
  show ?case
  proof (cases "(x, y) = (kx, ky)")
    case True
    with e none Cons.IH [OF d] show ?thesis
      by (simp add: update_conv')
  next
    case False
    then have "(x - west, south - y) \<noteq> (kx - west, south - ky)" by auto
    with False e Cons.IH [OF d] show ?thesis
      by (auto simp add: update_conv' split: option.split)
  qed
qed

lemma reindex_loop_keys:
  "fst ` set (reindex_loop west south raw new_dict) =
     (\<lambda>(x, y). (x - west, south - y)) ` fst ` set raw \<union> fst ` set new_dict"
proof (induction raw arbitrary: new_dict)
  case Nil
  then show ?case by simp
next
  case (Cons entry rest)
  obtain kx ky img where e: "entry = ((kx, ky), img)" by (cases entry) auto
  show ?case
    unfolding e reindex_loop.simps Cons.IH dom_update by auto
qed

text \<open>
  C4. On a non-empty raw dictionary (its keys distinct, as in every dictionary) the
  recompute succeeds, and every raw key \<open>(x, y)\<close> appears in the local dictionary, with
  its image, under \<open>(x - west, south - y)\<close>, where \<open>west\<close> is the least raw \<open>x\<close> and
  \<open>south\<close> the greatest raw \<open>y\<close>; the local keys are exactly these. For the raw tiles
  \<open>{(2,3), (4,5)}\<close> the local keys are \<open>{(0,2), (2,0)}\<close>: the south-west corner
  \<open>(2,5)\<close> of the rectangle is the local origin.
\<close>

theorem reindex_tiles_local_keys:
  assumes "raw_image_dict s \<noteq> []"
    and "distinct (map fst (raw_image_dict s))"
  shows "\<exists>s'. reindex_tiles s = Inr s'
     \<and> (\<forall>x y img. map_of (raw_image_dict s) (x, y) = Some img \<longrightarrow>
           map_of (image_dict s')
             (x - Min (set (map (fst \<circ> fst) (raw_image_dict s))),
              Max (set (map (snd \<circ> fst) (raw_image_dict s))) - y) = Some img)
     \<and> fst ` set (image_dict s') =
         (\<lambda>(x, y). (x - Min (set (map (fst \<circ> fst) (raw_image_dict s))),
                    Max (set (map (snd \<circ> fst) (raw_image_dict s))) - y))
           ` fst ` set (raw_image_dict s)"
proof -
  from reindex_tiles_ok [OF assms(1)] obtain s' where
    r: "reindex_tiles s = Inr s'"
    and i: "image_dict s' =
         reindex_loop (Min (set (map (fst \<circ> fst) (raw_image_dict s))))
                      (Max (set (map (snd \<circ> fst) (raw_image_dict s))))
                      (raw_image_dict s) []"
    by blast
  show ?thesis
    using r i reindex_loop_map_of [OF assms(2), where new_dict = "[]"]
    by (simp add: reindex_loop_keys)
qed

theorem reindex_tiles_local_keys_witness:
  "raw_image_dict example_state \<noteq> [] \<and> distinct (map fst (raw_image_dict example_state))
   \<and> (\<exists>s'. reindex_tiles example_state = Inr s'
        \<and> map_of (image_dict s') (0, 2) = Some 1
        \<and> map_of (image_dict s') (2, 0) = Some 2
        \<and> fst ` set (image_dict s') = {(0, 2), (2, 0)})"
proof -
  have h: "raw_image_dict example_state \<noteq> []"
    "distinct (map fst (raw_image_dict example_state))"
    by (simp_all add: example_state_def example_tiles_def)
  have w: "Min (set (map (fst \<circ> fst) (raw_image_dict example_state))) = 2"
    and so: "Max (set (map (snd \<circ> fst) (raw_image_dict example_state))) = 5"
    by (simp_all add: example_state_def example_tiles_def)
  from reindex_tiles_local_keys [OF h] obtain s' where
    r: "reindex_tiles example_state = Inr s'"
    and m: "\<And>x y img. map_of (raw_image_dict example_state) (x, y) = Some img \<Longrightarrow>
              map_of (image_dict s') (x - 2, 5 - y) = Some img"
    and k: "fst ` set (image_dict s') =
              (\<lambda>(x, y). (x - 2, 5 - y)) ` fst ` set (raw_image_dict example_state)"
    unfolding w so by blast
  have "map_of (image_dict s') (0, 2) = Some 1"
    using m [of 2 3 1] by (simp add: example_state_def example_tiles_def)
  moreover have "map_of (image_dict s') (2, 0) = Some 2"
    using m [of 4 5 2] by (simp add: example_state_def example_tiles_def)
  moreover have "fst ` set (image_dict s') = {(0, 2), (2, 0)}"
    using k by (simp add: example_state_def example_tiles_def)
  ultimately show ?thesis using h r by blast
qed

section \<open>Errors before the bounds exist\<close>

text \<open>
  C6. With an empty raw dictionary the bounds recompute raises \<^verbatim>\<open>ValueError\<close>, in
  \<^verbatim>\<open>__set_tile_bounds\<close> and hence in \<^verbatim>\<open>__reindex_tiles\<close>. The conversion
  \<^verbatim>\<open>degrees_to_graph\<close> raises \<^verbatim>\<open>ValueError\<close> while the gpx bounds are unset,
  and also while they are set but the tile degree bounds are not. In each case the
  result is an exception, not a coordinate pair.
\<close>

theorem bounds_errors:
  "(raw_image_dict s = [] \<longrightarrow>
      set_tile_bounds s = Inl (ValueError ''Image dictionary not set'')
      \<and> reindex_tiles s = Inl (ValueError ''Image dictionary not set''))
   \<and> (gpx_bounds_deg s = None \<longrightarrow>
        degrees_to_graph s degrees = Inl (ValueError ''GPX bounds not set''))
   \<and> (gpx_bounds_deg s \<noteq> None \<and> tile_bounds_deg s = None \<longrightarrow>
        degrees_to_graph s degrees = Inl (ValueError ''Tile bounds not set''))"
  by (auto simp add: set_tile_bounds_def reindex_tiles_def degrees_to_graph_def)

theorem bounds_errors_witness:
  "raw_image_dict (map_class_init :: nat map_class) = []
   \<and> gpx_bounds_deg (map_class_init :: nat map_class) = None
   \<and> gpx_bounds_deg ((map_class_init :: nat map_class)\<lparr>gpx_bounds_deg := Some (1, 1, 0, 0)\<rparr>) \<noteq> None
   \<and> tile_bounds_deg ((map_class_init :: nat map_class)\<lparr>gpx_bounds_deg := Some (1, 1, 0, 0)\<rparr>) = None
   \<and> set_tile_bounds (map_class_init :: nat map_class) = Inl (ValueError ''Image dictionary not set'')
   \<and> reindex_tiles (map_class_init :: nat map_class) = Inl (ValueError ''Image dictionary not set'')
   \<and> degrees_to_graph (map_class_init :: nat map_class) (0, 0) = Inl (ValueError ''GPX bounds not set'')
   \<and> degrees_to_graph ((map_class_init :: nat map_class)\<lparr>gpx_bounds_deg := Some (1, 1, 0, 0)\<rparr>) (0, 0)
        = Inl (ValueError ''Tile bounds not set'')"
  using bounds_errors [of "map_class_init :: nat map_class" "(0, 0)"]
    bounds_errors [of "(map_class_init :: nat map_class)\<lparr>gpx_bounds_deg := Some (1, 1, 0, 0)\<rparr>" "(0, 0)"]
  by (simp add: map_class_init_def)

section \<open>The zoom margin at zero\<close>

text \<open>
  C9. In every state whose plot bounds are set, \<^verbatim>\<open>scale_zoom\<close> applied to 0 returns
  exactly 5: the two powers are the same expression, so their difference is zero
  (in floating point as well) and only \<^verbatim>\<open>smallest_zoom_level\<close> remains.
\<close>

theorem scale_zoom_at_zero:
  assumes "tile_bounds_plt s = Some bounds"
  shows "scale_zoom s 0 = Inr 5"
  using assms by (cases bounds) (simp add: scale_zoom_def)

theorem scale_zoom_at_zero_witness:
  "\<exists>s'. reindex_tiles example_state = Inr s' \<and> tile_bounds_plt s' = Some (150, 150, 0, 0)
      \<and> scale_zoom s' 0 = Inr 5"
proof -
  from reindex_tiles_ok [of example_state] obtain s' where
    r: "reindex_tiles example_state = Inr s'"
    by (auto simp add: example_state_def example_tiles_def)
  then have b: "tile_bounds_plt s' = Some (150, 150, 0, 0)"
    by (auto simp add: reindex_tiles_def set_tile_bounds_def tile_ind_bounds_def Let_def
        example_state_def example_tiles_def map_class_init_def bind_err_Inr_iff)
  from scale_zoom_at_zero [OF b] r b show ?thesis by blast
qed

end
